theory Spec2Isabelle
  imports Main "HOL-Library.Log_Nat" "HOL-Library.Char_ord" "HOL-Library.List_Lexorder"
begin

section \<open>Python values used by FixTCX.py\<close>

text \<open>
  A Python \<open>str\<close> is modelled as a \<open>string\<close>: the list of its code points, each below
  256.  Exceptions are values of \<open>error\<close>; a function that can raise returns
  \<open>error + 'a\<close> with \<open>Inl\<close> for the exception.
\<close>

datatype error =
    FileNotFoundError string
  | IsADirectoryError string
  | ValueError string
  | TypeError string
  | OverflowError string

subsection \<open>\<open>str.strip\<close>, \<open>str.startswith\<close>, \<open>str.find\<close>, slicing\<close>

definition py_isspace :: "char \<Rightarrow> bool" where
  \<comment> \<open>\<open>str.isspace\<close> on one character: TAB, LF, VT, FF, CR, FS, GS, RS, US, SPACE, NEL, NBSP.\<close>
  "py_isspace c = (let n = (of_char c :: nat) in (9 \<le> n \<and> n \<le> 13) \<or> (28 \<le> n \<and> n \<le> 32) \<or> n = 133 \<or> n = 160)"

definition py_strip :: "string \<Rightarrow> string" where
  "py_strip s = rev (dropWhile py_isspace (rev (dropWhile py_isspace s)))"

definition startswith :: "string \<Rightarrow> string \<Rightarrow> bool" where
  "startswith s p = (take (length p) s = p)"

fun str_find :: "string \<Rightarrow> string \<Rightarrow> int" where
  \<comment> \<open>\<open>s.find(sub)\<close>: the lowest index where \<open>sub\<close> starts, or \<open>-1\<close>.\<close>
  "str_find [] sub = (if sub = [] then 0 else - 1)"
| "str_find (c # cs) sub =
     (if startswith (c # cs) sub then 0
      else (let i = str_find cs sub in if i < 0 then - 1 else i + 1))"

definition slice_from :: "int \<Rightarrow> string \<Rightarrow> string" where
  \<comment> \<open>\<open>s[i:]\<close>; a negative index counts from the end.\<close>
  "slice_from i s = (if 0 \<le> i then drop (nat i) s else drop (length s - nat (- i)) s)"

subsection \<open>\<open>float(text)\<close>\<close>

text \<open>
  \<open>float\<close> of a string: surrounding whitespace is dropped, underscores may stand between
  digits, the rest is an optional sign followed by \<open>inf\<close>, \<open>infinity\<close>, \<open>nan\<close> (any case) or
  a decimal number with an optional exponent.  The decimal value is rounded to the nearest
  binary64 number, ties to the even mantissa; a value too large becomes an infinity.  A
  finite float is kept as the rational number it denotes (the sign of a zero is not kept:
  \<open>int\<close> forgets it).
\<close>

datatype pyfloat = Finite rat | PosInf | NegInf | NaN

definition is_digit :: "char \<Rightarrow> bool" where
  "is_digit c = (48 \<le> (of_char c :: nat) \<and> (of_char c :: nat) \<le> 57)"

definition digit_val :: "char \<Rightarrow> nat" where
  "digit_val c = of_char c - 48"

definition dec_val :: "string \<Rightarrow> nat" where
  "dec_val ds = foldl (\<lambda>a c. 10 * a + digit_val c) 0 ds"

definition float_isspace :: "char \<Rightarrow> bool" where
  \<comment> \<open>What \<open>float\<close> strips: the ASCII whitespace, and NEL and NBSP (turned into spaces first).\<close>
  "float_isspace c = (let n = (of_char c :: nat) in (9 \<le> n \<and> n \<le> 13) \<or> n = 32 \<or> n = 133 \<or> n = 160)"

fun drop_underscores :: "char \<Rightarrow> string \<Rightarrow> string option" where
  \<comment> \<open>An underscore is allowed only between two digits; \<open>prev\<close> is the character before.\<close>
  "drop_underscores prev [] = (if prev = CHR ''_'' then None else Some [])"
| "drop_underscores prev (c # cs) =
     (if c = CHR ''_'' then (if is_digit prev then drop_underscores c cs else None)
      else if prev = CHR ''_'' \<and> \<not> is_digit c then None
      else map_option ((#) c) (drop_underscores c cs))"

definition lower_ascii :: "char \<Rightarrow> char" where
  "lower_ascii c = (let n = (of_char c :: nat) in if 65 \<le> n \<and> n \<le> 90 then char_of (n + 32) else c)"

definition split_sign :: "string \<Rightarrow> bool \<times> string" where
  \<comment> \<open>An optional sign; \<open>True\<close> for a minus.\<close>
  "split_sign s = (case s of
       c # cs \<Rightarrow> if c = CHR ''-'' then (True, cs) else if c = CHR ''+'' then (False, cs) else (False, s)
     | [] \<Rightarrow> (False, []))"

definition pow2 :: "int \<Rightarrow> rat" where
  "pow2 k = (if 0 \<le> k then 2 ^ nat k else 1 / 2 ^ nat (- k))"

definition round_half_even :: "rat \<Rightarrow> int" where
  "round_half_even x =
     (let f = \<lfloor>x\<rfloor>; d = x - of_int f
      in if d < 1 / 2 then f else if 1 / 2 < d then f + 1 else if even f then f else f + 1)"

definition round_div :: "int \<Rightarrow> int \<Rightarrow> int" where
  \<comment> \<open>For \<open>0 < b\<close>: the integer nearest to \<open>a / b\<close>, a tie goes to the even one.\<close>
  "round_div a b =
     (let q = a div b; r = a mod b
      in if 2 * r < b then q else if b < 2 * r then q + 1 else if even q then q else q + 1)"

definition floor_log2 :: "int \<Rightarrow> int \<Rightarrow> int" where
  \<comment> \<open>For \<open>0 < n\<close> and \<open>0 < d\<close>: the \<open>e\<close> with \<open>2^e \<le> n / d < 2^(e + 1)\<close>.\<close>
  "floor_log2 n d =
     (let k = bitlen n - bitlen d
      in if (if 0 \<le> k then d * 2 ^ nat k \<le> n else d \<le> n * 2 ^ nat (- k)) then k else k - 1)"

definition to_double :: "bool \<Rightarrow> int \<Rightarrow> int \<Rightarrow> pyfloat" where
  \<comment> \<open>The binary64 number nearest to \<open>\<plusminus> n / d\<close> (\<open>0 \<le> n\<close>, \<open>0 < d\<close>): a mantissa \<open>m\<close> of at
      most 53 bits (a tie goes to the even one) at the exponent \<open>p\<close>, which is at least
      \<open>-1074\<close>; an infinity when \<open>m * 2^p\<close> reaches \<open>2^1024\<close>, that is when it has more
      than 1024 bits.\<close>
  "to_double neg n d =
     (if n = 0 then Finite 0
      else let e = floor_log2 n d;
               p = max (e - 52) (- 1074);
               m = (if 0 \<le> p then round_div n (d * 2 ^ nat p) else round_div (n * 2 ^ nat (- p)) d);
               v = of_int m * pow2 p
           in if 1024 < bitlen m + p then (if neg then NegInf else PosInf)
              else Finite (if neg then - v else v))"

definition parse_exponent :: "string \<Rightarrow> (int \<times> string) option" where
  \<comment> \<open>\<open>e\<close> or \<open>E\<close>, an optional sign and at least one digit; \<open>None\<close> when there is none.\<close>
  "parse_exponent s = (case s of
       c # cs \<Rightarrow>
         if c = CHR ''e'' \<or> c = CHR ''E'' then
           (let (neg, r) = split_sign cs; ds = takeWhile is_digit r
            in if ds = [] then None
               else Some ((if neg then - int (dec_val ds) else int (dec_val ds)), dropWhile is_digit r))
         else None
     | [] \<Rightarrow> None)"

definition parse_decimal :: "bool \<Rightarrow> string \<Rightarrow> pyfloat option" where
  \<comment> \<open>Digits, an optional point and more digits (one digit at least), an optional exponent,
      and nothing after it.\<close>
  "parse_decimal neg s =
     (let ip = takeWhile is_digit s; r = dropWhile is_digit s;
          dot = (r \<noteq> [] \<and> hd r = CHR ''.'');
          fp = (if dot then takeWhile is_digit (tl r) else []);
          r2 = (if dot then dropWhile is_digit (tl r) else r)
      in if ip = [] \<and> fp = [] then None
         else let (ex, r3) = (case parse_exponent r2 of Some (x, r') \<Rightarrow> (x, r') | None \<Rightarrow> (0, r2));
                  m = int (dec_val (ip @ fp));
                  e10 = ex - int (length fp)
              in if r3 \<noteq> [] then None
                 else Some (if 0 \<le> e10 then to_double neg (m * 10 ^ nat e10) 1
                            else to_double neg m (10 ^ nat (- e10))))"

definition parse_inf_nan :: "bool \<Rightarrow> string \<Rightarrow> pyfloat option" where
  "parse_inf_nan neg s =
     (let l = map lower_ascii s
      in if l = ''inf'' \<or> l = ''infinity'' then Some (if neg then NegInf else PosInf)
         else if l = ''nan'' then Some NaN
         else None)"

definition py_float :: "string \<Rightarrow> pyfloat option" where
  \<comment> \<open>\<open>float(s)\<close> for a string; \<open>None\<close> is the ValueError "could not convert string to float".\<close>
  "py_float s =
     (case drop_underscores (CHR 0x00) s of
        None \<Rightarrow> None
      | Some u \<Rightarrow>
          (let t = rev (dropWhile float_isspace (rev (dropWhile float_isspace u)));
               (neg, r) = split_sign t
           in case parse_decimal neg r of
                Some x \<Rightarrow> Some x
              | None \<Rightarrow> parse_inf_nan neg r))"

subsection \<open>\<open>round\<close>, \<open>int\<close>, \<open>str\<close>\<close>

definition py_round :: "rat \<Rightarrow> int" where
  \<comment> \<open>\<open>int(round(x))\<close> for a finite float: the nearest integer, a tie goes to the even one.\<close>
  "py_round x = round_half_even x"

fun nat_digits :: "nat \<Rightarrow> string" where
  "nat_digits n =
     (if n < 10 then [char_of (48 + n)] else nat_digits (n div 10) @ [char_of (48 + n mod 10)])"

declare nat_digits.simps [simp del]

definition py_str_int :: "int \<Rightarrow> string" where
  \<comment> \<open>\<open>str(n)\<close> for an int.\<close>
  "py_str_int n = (if n < 0 then CHR ''-'' # nat_digits (nat (- n)) else nat_digits (nat n))"

definition rounded :: "string option \<Rightarrow> error + string option" where
  \<comment> \<open>The statement \<open>x.text = str(int(round(float(x.text))))\<close> inside
      \<open>try: ... except ValueError: pass\<close>: the new value of \<open>x.text\<close>, or the exception that
      leaves the \<open>try\<close>.  \<open>float(None)\<close> raises TypeError, \<open>round\<close> of an infinity raises
      OverflowError, \<open>round\<close> of a NaN raises ValueError (caught).\<close>
  "rounded t = (case t of
       None \<Rightarrow> Inl (TypeError (''float() argument must be a string or a real number, not '' @ [CHR 0x27] @ ''NoneType'' @ [CHR 0x27]))
     | Some s \<Rightarrow>
         (case py_float s of
            None \<Rightarrow> Inr (Some s)
          | Some NaN \<Rightarrow> Inr (Some s)
          | Some PosInf \<Rightarrow> Inl (OverflowError ''cannot convert float infinity to integer'')
          | Some NegInf \<Rightarrow> Inl (OverflowError ''cannot convert float infinity to integer'')
          | Some (Finite v) \<Rightarrow> Inr (Some (py_str_int (py_round v)))))"

section \<open>ElementTree elements\<close>

text \<open>
  An \<open>xml.etree.ElementTree.Element\<close>: its tag (a namespaced tag is written
  \<open>{uri}local\<close>, as ElementTree keeps it), its attributes in document order, its text
  (\<open>None\<close> when the element has none), its children and its tail.  The parser drops
  comments and processing instructions, so every tag is a string.
\<close>

datatype element =
  Element (tag: string) (attrib: "(string \<times> string) list") (text_el: "string option")
    (children: "element list") (tail: "string option")

fun set_tag :: "string \<Rightarrow> element \<Rightarrow> element" where
  "set_tag t (Element _ a x cs ta) = Element t a x cs ta"

fun set_text :: "string option \<Rightarrow> element \<Rightarrow> element" where
  "set_text x (Element t a _ cs ta) = Element t a x cs ta"

fun set_children :: "element list \<Rightarrow> element \<Rightarrow> element" where
  "set_children cs (Element t a x _ ta) = Element t a x cs ta"

definition ns_tcx :: string where
  "ns_tcx = ''http://www.garmin.com/xmlschemas/TrainingCenterDatabase/v2''"

definition ns_ext :: string where
  "ns_ext = ''http://www.garmin.com/xmlschemas/ActivityExtension/v2''"

definition qname :: "string \<Rightarrow> string \<Rightarrow> string" where
  "qname uri l = ''{'' @ uri @ ''}'' @ l"

abbreviation tcx :: "string \<Rightarrow> string" where
  "tcx l \<equiv> qname ns_tcx l"

abbreviation ext :: "string \<Rightarrow> string" where
  "ext l \<equiv> qname ns_ext l"

definition local_name :: "string \<Rightarrow> string" where
  \<comment> \<open>\<open>tag.split('}')[-1]\<close>: what follows the last closing brace.\<close>
  "local_name t = rev (takeWhile (\<lambda>c. c \<noteq> CHR ''}'') (rev t))"

subsection \<open>Searching: \<open>find\<close> and \<open>findall\<close> with the namespace map \<open>ns\<close>\<close>

text \<open>
  With \<open>namespaces={'': ns_tcx, 'ae': ns_ext}\<close> the path step \<open>Name\<close> selects the children
  tagged \<open>{ns_tcx}Name\<close> and \<open>ae:Name\<close> those tagged \<open>{ns_ext}Name\<close>; \<open>A/B\<close> selects the
  \<open>B\<close> children of the \<open>A\<close> children; \<open>.//Name\<close> selects the proper descendants with
  that tag.  All in document order; \<open>find\<close> returns the first.
\<close>

definition find_child :: "string \<Rightarrow> element \<Rightarrow> element option" where
  "find_child t e = List.find (\<lambda>c. tag c = t) (children e)"

definition find_path2 :: "string \<Rightarrow> string \<Rightarrow> element \<Rightarrow> element option" where
  "find_path2 a b e =
     (case concat (map (\<lambda>p. filter (\<lambda>c. tag c = b) (children p))
                    (filter (\<lambda>p. tag p = a) (children e))) of
        [] \<Rightarrow> None
      | c # _ \<Rightarrow> Some c)"

fun iter :: "element \<Rightarrow> element list" where
  \<comment> \<open>\<open>Element.iter()\<close>: the element, then its descendants, in document order.\<close>
  "iter (Element t a x cs ta) = Element t a x cs ta # concat (map iter cs)"

definition findall_desc :: "string \<Rightarrow> element \<Rightarrow> element list" where
  \<comment> \<open>\<open>root.findall(".//Name")\<close>.\<close>
  "findall_desc t e = filter (\<lambda>x. tag x = t) (concat (map iter (children e)))"

definition find_desc :: "string \<Rightarrow> element \<Rightarrow> element option" where
  \<comment> \<open>\<open>root.find(".//Name")\<close>.\<close>
  "find_desc t e = (case findall_desc t e of [] \<Rightarrow> None | x # _ \<Rightarrow> Some x)"

subsection \<open>Editing in place\<close>

text \<open>
  The source edits the element that \<open>find\<close> returned.  Every element of a parsed tree
  has one parent and one place among its siblings, so the edit is the update of the first
  child that the search selects.
\<close>

fun update_first :: "('a \<Rightarrow> bool) \<Rightarrow> ('a \<Rightarrow> 'a) \<Rightarrow> 'a list \<Rightarrow> 'a list" where
  "update_first P f [] = []"
| "update_first P f (x # xs) = (if P x then f x # xs else x # update_first P f xs)"

fun remove_first :: "('a \<Rightarrow> bool) \<Rightarrow> 'a list \<Rightarrow> 'a list" where
  "remove_first P [] = []"
| "remove_first P (x # xs) = (if P x then xs else x # remove_first P xs)"

definition and_then :: "'e + 'a \<Rightarrow> ('a \<Rightarrow> 'e + 'b) \<Rightarrow> 'e + 'b" where
  \<comment> \<open>Sequencing: an exception ends the run.\<close>
  "and_then r f = (case r of Inl e \<Rightarrow> Inl e | Inr v \<Rightarrow> f v)"

primrec sequence :: "('e + 'a) list \<Rightarrow> 'e + 'a list" where
  \<comment> \<open>The results of a loop, or the first exception.\<close>
  "sequence [] = Inr []"
| "sequence (r # rs) =
     (case r of
        Inl e \<Rightarrow> Inl e
      | Inr v \<Rightarrow> (case sequence rs of Inl e \<Rightarrow> Inl e | Inr vs \<Rightarrow> Inr (v # vs)))"

definition round_child :: "string \<Rightarrow> element \<Rightarrow> error + element" where
  \<comment> \<open>\<open>x = e.find("Name")\<close>, then, if \<open>x is not None\<close>, the guarded rounding of \<open>x.text\<close>.\<close>
  "round_child t e =
     (case find_child t e of
        None \<Rightarrow> Inr e
      | Some c \<Rightarrow>
          and_then (rounded (text_el c))
            (\<lambda>x. Inr (set_children (update_first (\<lambda>c. tag c = t) (set_text x) (children e)) e)))"

definition round_grandchild :: "string \<Rightarrow> string \<Rightarrow> element \<Rightarrow> error + element" where
  \<comment> \<open>The same for \<open>e.find("A/B")\<close>: the first \<open>B\<close> child under the \<open>A\<close> children.\<close>
  "round_grandchild a b e =
     (case find_path2 a b e of
        None \<Rightarrow> Inr e
      | Some c \<Rightarrow>
          and_then (rounded (text_el c))
            (\<lambda>x. Inr (set_children
               (update_first (\<lambda>p. tag p = a \<and> find_child b p \<noteq> None)
                  (\<lambda>p. set_children (update_first (\<lambda>c. tag c = b) (set_text x) (children p)) p)
                  (children e)) e)))"

section \<open>The transformation of \<open>clean_strava_peloton_tcx\<close>\<close>

subsection \<open>The Creator of the Activity (lines 58 to 63)\<close>

fun first_activity :: "element \<Rightarrow> element option"
  and first_activity_list :: "element list \<Rightarrow> element list option" where
  \<comment> \<open>The first Activity in document order loses its first Creator child; \<open>None\<close> when
      there is no Activity.\<close>
  "first_activity (Element t a x cs ta) =
     (if t = tcx ''Activity''
      then Some (Element t a x (remove_first (\<lambda>c. tag c = tcx ''Creator'') cs) ta)
      else map_option (\<lambda>cs'. Element t a x cs' ta) (first_activity_list cs))"
| "first_activity_list [] = None"
| "first_activity_list (c # cs) =
     (case first_activity c of
        Some c' \<Rightarrow> Some (c' # cs)
      | None \<Rightarrow> map_option ((#) c) (first_activity_list cs))"

definition remove_creator :: "element \<Rightarrow> element" where
  \<comment> \<open>\<open>root.find(".//Activity")\<close> searches below the root only.\<close>
  "remove_creator rt =
     (case first_activity_list (children rt) of
        None \<Rightarrow> rt
      | Some cs \<Rightarrow> set_children cs rt)"

subsection \<open>One Lap (lines 67 to 125)\<close>

definition to_remove_names :: "string list" where
  "to_remove_names = [''TotalPower'', ''AverageResistance'', ''MaximumResistance'']"

definition rename_map :: "(string \<times> string) list" where
  "rename_map =
     [(''AverageCadence'', ''AvgCadence''), (''MaximumCadence'', ''MaxCadence''),
      (''AverageWatts'', ''AvgWatts''), (''MaximumWatts'', ''MaxWatts'')]"

definition lx_child :: "element \<Rightarrow> error + bool \<times> element" where
  \<comment> \<open>The body of \<open>for child in tpx\<close>: whether the child goes to \<open>to_remove\<close>, and the child
      after the renaming and the rounding of a non-empty text.\<close>
  "lx_child child =
     (let child_tag = local_name (tag child);
          rm = (child_tag \<in> set to_remove_names);
          child1 = (if rm then child
                    else case map_of rename_map child_tag of
                           Some n \<Rightarrow> set_tag (ext n) child
                         | None \<Rightarrow> child)
      in if text_el child1 \<noteq> None \<and> text_el child1 \<noteq> Some []
         then and_then (rounded (text_el child1)) (\<lambda>x. Inr (rm, set_text x child1))
         else Inr (rm, child1))"

definition lap_tpx :: "element \<Rightarrow> error + element" where
  \<comment> \<open>The block found as \<open>ae:TPX\<close>: retagged \<open>LX\<close>, its children renamed and rounded, then
      those of \<open>to_remove\<close> removed.\<close>
  "lap_tpx tpx =
     and_then (sequence (map lx_child (children tpx)))
       (\<lambda>rs. Inr (set_children (map snd (filter (\<lambda>r. \<not> fst r) rs)) (set_tag (ext ''LX'') tpx)))"

definition lap_extensions :: "element \<Rightarrow> error + element" where
  "lap_extensions lap =
     (case find_child (tcx ''Extensions'') lap of
        None \<Rightarrow> Inr lap
      | Some extensions \<Rightarrow>
          (case find_child (ext ''TPX'') extensions of
             None \<Rightarrow> Inr lap
           | Some tpx \<Rightarrow>
               and_then (lap_tpx tpx)
                 (\<lambda>lx. Inr (set_children
                    (update_first (\<lambda>c. tag c = tcx ''Extensions'')
                       (\<lambda>ex. set_children
                          (update_first (\<lambda>c. tag c = ext ''TPX'') (\<lambda>_. lx) (children ex)) ex)
                       (children lap)) lap))))"

definition process_lap :: "element \<Rightarrow> error + element" where
  \<comment> \<open>The body of \<open>for lap in root.findall(".//Lap")\<close>.\<close>
  "process_lap lap =
     and_then (Inr (set_children (remove_first (\<lambda>c. tag c = tcx ''Cadence'') (children lap)) lap))
       (\<lambda>lap. and_then (round_child (tcx ''Calories'') lap)
       (\<lambda>lap. and_then (round_grandchild (tcx ''AverageHeartRateBpm'') (tcx ''Value'') lap)
       (\<lambda>lap. and_then (round_grandchild (tcx ''MaximumHeartRateBpm'') (tcx ''Value'') lap)
       lap_extensions)))"

subsection \<open>One Trackpoint (lines 129 to 158)\<close>

definition tp_tpx :: "element \<Rightarrow> error + element" where
  "tp_tpx tpx =
     round_child (ext ''Watts'')
       (set_children (remove_first (\<lambda>c. tag c = ext ''Resistance'') (children tpx)) tpx)"

definition tp_extensions :: "element \<Rightarrow> error + element" where
  "tp_extensions tp =
     (case find_child (tcx ''Extensions'') tp of
        None \<Rightarrow> Inr tp
      | Some extensions \<Rightarrow>
          (case find_child (ext ''TPX'') extensions of
             None \<Rightarrow> Inr tp
           | Some tpx \<Rightarrow>
               and_then (tp_tpx tpx)
                 (\<lambda>tpx'. Inr (set_children
                    (update_first (\<lambda>c. tag c = tcx ''Extensions'')
                       (\<lambda>ex. set_children
                          (update_first (\<lambda>c. tag c = ext ''TPX'') (\<lambda>_. tpx') (children ex)) ex)
                       (children tp)) tp))))"

definition process_trackpoint :: "element \<Rightarrow> error + element" where
  \<comment> \<open>The body of \<open>for tp in root.findall(".//Trackpoint")\<close>.\<close>
  "process_trackpoint tp =
     and_then (round_grandchild (tcx ''HeartRateBpm'') (tcx ''Value'') tp)
       (\<lambda>tp. and_then (round_child (tcx ''Cadence'') tp)
       tp_extensions)"

subsection \<open>The two loops\<close>

text \<open>
  \<open>findall\<close> lists the Laps below the root before the first of them is edited, and the
  loop edits each where it stands.  The model walks the tree and applies the loop body to
  each Lap it meets, the Laps inside a Lap before that Lap.  A body reads and writes only
  the children of its Lap, the \<open>Value\<close> grandchildren and the block under \<open>Extensions\<close>,
  none of which is a Lap or a part another Lap's body reads, so the order of the edits
  does not change the tree, and whether the run raises does not depend on it (a Lap in a
  part that an enclosing Lap removes is still in the list, and is edited here before the
  removal).  When two bodies inside one another both raise, the source reports the outer
  one's exception first and the model the inner one's.  The same holds for Trackpoints.
\<close>

fun lap_walk :: "element \<Rightarrow> error + element"
  and lap_walk_list :: "element list \<Rightarrow> error + element list" where
  "lap_walk (Element t a x cs ta) =
     (case lap_walk_list cs of
        Inl e \<Rightarrow> Inl e
      | Inr cs' \<Rightarrow>
          if t = tcx ''Lap'' then process_lap (Element t a x cs' ta)
          else Inr (Element t a x cs' ta))"
| "lap_walk_list [] = Inr []"
| "lap_walk_list (c # cs) =
     (case lap_walk c of
        Inl e \<Rightarrow> Inl e
      | Inr c' \<Rightarrow> (case lap_walk_list cs of Inl e \<Rightarrow> Inl e | Inr cs' \<Rightarrow> Inr (c' # cs')))"

fun tp_walk :: "element \<Rightarrow> error + element"
  and tp_walk_list :: "element list \<Rightarrow> error + element list" where
  "tp_walk (Element t a x cs ta) =
     (case tp_walk_list cs of
        Inl e \<Rightarrow> Inl e
      | Inr cs' \<Rightarrow>
          if t = tcx ''Trackpoint'' then process_trackpoint (Element t a x cs' ta)
          else Inr (Element t a x cs' ta))"
| "tp_walk_list [] = Inr []"
| "tp_walk_list (c # cs) =
     (case tp_walk c of
        Inl e \<Rightarrow> Inl e
      | Inr c' \<Rightarrow> (case tp_walk_list cs of Inl e \<Rightarrow> Inl e | Inr cs' \<Rightarrow> Inr (c' # cs')))"

definition lap_pass :: "element \<Rightarrow> error + element" where
  \<comment> \<open>\<open>.//Lap\<close> does not select the root itself.\<close>
  "lap_pass rt = and_then (lap_walk_list (children rt)) (\<lambda>cs. Inr (set_children cs rt))"

definition tp_pass :: "element \<Rightarrow> error + element" where
  "tp_pass rt = and_then (tp_walk_list (children rt)) (\<lambda>cs. Inr (set_children cs rt))"

definition transform :: "element \<Rightarrow> error + element" where
  \<comment> \<open>Lines 58 to 158: from the parsed tree to the tree that is written.\<close>
  "transform rt = and_then (lap_pass (remove_creator rt)) tp_pass"

section \<open>Writing the tree: \<open>ElementTree.write\<close>\<close>

text \<open>
  \<open>tree.write(output_file, encoding='utf-8', xml_declaration=True)\<close> after
  \<open>ET.register_namespace('', ns_tcx)\<close> and \<open>ET.register_namespace('ae', ns_ext)\<close>.
  The serializer first walks the tree and gives a prefix to every namespace that a tag or
  an attribute name uses (the registered prefix, or \<open>ns0\<close>, \<open>ns1\<close>, ...), and declares
  these namespaces, sorted by prefix, on the root element.
\<close>

definition dq :: string where
  "dq = [CHR 0x22]"

definition registry :: "(string \<times> string) list" where
  \<comment> \<open>\<open>_namespace_map\<close>: the prefixes ElementTree knows, and the two the source registers.\<close>
  "registry =
     [(''http://www.w3.org/XML/1998/namespace'', ''xml''),
      (''http://www.w3.org/1999/xhtml'', ''html''),
      (''http://www.w3.org/1999/02/22-rdf-syntax-ns#'', ''rdf''),
      (''http://schemas.xmlsoap.org/wsdl/'', ''wsdl''),
      (''http://www.w3.org/2001/XMLSchema'', ''xs''),
      (''http://www.w3.org/2001/XMLSchema-instance'', ''xsi''),
      (''http://purl.org/dc/elements/1.1/'', ''dc''),
      (ns_tcx, []),
      (ns_ext, ''ae'')]"

definition rsplit_brace :: "string \<Rightarrow> (string \<times> string) option" where
  \<comment> \<open>\<open>s.rsplit("}", 1)\<close> when it has two parts.\<close>
  "rsplit_brace s =
     (if CHR ''}'' \<in> set s
      then Some (rev (tl (dropWhile (\<lambda>c. c \<noteq> CHR ''}'') (rev s))),
                 rev (takeWhile (\<lambda>c. c \<noteq> CHR ''}'') (rev s)))
      else None)"

definition add_qname :: "string \<Rightarrow> (string \<times> string) list \<Rightarrow> error + (string \<times> string) list" where
  \<comment> \<open>The namespaces (uri, prefix) after one more name has been seen.\<close>
  "add_qname q nss =
     (case q of
        c # r \<Rightarrow>
          if c = CHR ''{'' then
            (case rsplit_brace r of
               None \<Rightarrow> Inl (ValueError ''not enough values to unpack (expected 2, got 1)'')
             | Some (uri, l) \<Rightarrow>
                 (case map_of nss uri of
                    Some p \<Rightarrow> Inr nss
                  | None \<Rightarrow>
                      (let prefix = (case map_of registry uri of
                                       Some p \<Rightarrow> p
                                     | None \<Rightarrow> ''ns'' @ py_str_int (int (length nss)))
                       in Inr (if prefix \<noteq> ''xml'' then nss @ [(uri, prefix)] else nss))))
          else Inr nss
      | [] \<Rightarrow> Inr nss)"

fun add_qnames :: "string list \<Rightarrow> (string \<times> string) list \<Rightarrow> error + (string \<times> string) list" where
  "add_qnames [] nss = Inr nss"
| "add_qnames (q # qs) nss = and_then (add_qname q nss) (add_qnames qs)"

definition namespaces :: "element \<Rightarrow> error + (string \<times> string) list" where
  \<comment> \<open>\<open>_namespaces(root)\<close>: over \<open>root.iter()\<close>, the tag and then the attribute names.\<close>
  "namespaces rt = add_qnames (concat (map (\<lambda>e. tag e # map fst (attrib e)) (iter rt))) []"

definition qname_text :: "(string \<times> string) list \<Rightarrow> string \<Rightarrow> string" where
  \<comment> \<open>\<open>qnames[q]\<close>: \<open>prefix:local\<close>, or \<open>local\<close> under the empty prefix.\<close>
  "qname_text nss q =
     (case q of
        c # r \<Rightarrow>
          if c = CHR ''{'' then
            (case rsplit_brace r of
               None \<Rightarrow> q
             | Some (uri, l) \<Rightarrow>
                 (let prefix = (case map_of nss uri of
                                  Some p \<Rightarrow> p
                                | None \<Rightarrow> (case map_of registry uri of Some p \<Rightarrow> p | None \<Rightarrow> []))
                  in if prefix \<noteq> [] then prefix @ '':'' @ l else l))
          else q
      | [] \<Rightarrow> q)"

definition escape_cdata :: "string \<Rightarrow> string" where
  "escape_cdata s =
     concat (map (\<lambda>c. if c = CHR ''&'' then ''&amp;'' else if c = CHR ''<'' then ''&lt;''
                       else if c = CHR ''>'' then ''&gt;'' else [c]) s)"

definition escape_attrib :: "string \<Rightarrow> string" where
  "escape_attrib s =
     concat (map (\<lambda>c. if c = CHR ''&'' then ''&amp;'' else if c = CHR ''<'' then ''&lt;''
                       else if c = CHR ''>'' then ''&gt;'' else if c = CHR 0x22 then ''&quot;''
                       else if c = CHR 0x0D then ''&#13;'' else if c = CHR 0x0A then ''&#10;''
                       else if c = CHR 0x09 then ''&#09;'' else [c]) s)"

definition xmlns_decls :: "(string \<times> string) list \<Rightarrow> string" where
  \<comment> \<open>The declarations on the root element, sorted on the prefix.\<close>
  "xmlns_decls nss =
     concat (map (\<lambda>(v, k). '' xmlns'' @ (if k \<noteq> [] then '':'' @ k else []) @ ''='' @ dq
                            @ escape_attrib v @ dq)
                 (sort_key snd nss))"

fun serialize_xml :: "(string \<times> string) list \<Rightarrow> bool \<Rightarrow> element \<Rightarrow> string" where
  \<comment> \<open>\<open>_serialize_xml\<close> with short empty elements; \<open>is_root\<close> marks the root.\<close>
  "serialize_xml nss is_root (Element t a x cs ta) =
     ''<'' @ qname_text nss t
       @ (if is_root then xmlns_decls nss else [])
       @ concat (map (\<lambda>(k, v). '' '' @ qname_text nss k @ ''='' @ dq @ escape_attrib v @ dq) a)
       @ (if (x \<noteq> None \<and> x \<noteq> Some []) \<or> cs \<noteq> []
          then ''>'' @ (case x of Some s \<Rightarrow> escape_cdata s | None \<Rightarrow> [])
               @ concat (map (serialize_xml nss False) cs)
               @ ''</'' @ qname_text nss t @ ''>''
          else '' />'')
       @ (case ta of Some s \<Rightarrow> escape_cdata s | None \<Rightarrow> [])"

definition xml_declaration :: string where
  "xml_declaration = ''<?xml version='' @ [CHR 0x27] @ ''1.0'' @ [CHR 0x27]
                     @ '' encoding='' @ [CHR 0x27] @ ''utf-8'' @ [CHR 0x27] @ ''?>'' @ [CHR 0x0A]"

definition tostring :: "element \<Rightarrow> error + string" where
  \<comment> \<open>What \<open>write\<close> puts after the declaration, or the exception of \<open>_namespaces\<close>.\<close>
  "tostring rt = and_then (namespaces rt) (\<lambda>nss. Inr (serialize_xml nss True rt))"

section \<open>The function \<open>clean_strava_peloton_tcx\<close>\<close>

text \<open>
  The world of the function: the file system, a map from paths to files (with their text
  as \<open>read()\<close> returns it) and directories, and the lines printed.
  \<open>ET.fromstring\<close> is the XML parser of the standard library; the function takes it as
  the parameter \<open>fromstring\<close>, which returns the root element or the message of the
  \<open>ParseError\<close>.  Opening a directory raises; other failures of the operating system are
  not modelled.
\<close>

datatype fs_entry = File string | Directory

record world =
  files :: "string \<Rightarrow> fs_entry option"
  stdout :: "string list"

definition parse_content :: "(string \<Rightarrow> string + element) \<Rightarrow> string \<Rightarrow> error + element" where
  \<comment> \<open>Lines 47 to 56: one parse, and after a \<open>ParseError\<close> one more, of the content after
      the first \<open>?>\<close> when the content starts with \<open><?xml\<close>.\<close>
  "parse_content fromstring content =
     (case fromstring content of
        Inr rt \<Rightarrow> Inr rt
      | Inl e \<Rightarrow>
          (let content =
                 (if startswith content ''<?xml''
                  then (let decl_end = str_find content ''?>'' + 2
                        in py_strip (slice_from decl_end content))
                  else content)
           in case fromstring content of
                Inr rt \<Rightarrow> Inr rt
              | Inl e \<Rightarrow> Inl (ValueError (''Failed to parse XML: '' @ e))))"

definition not_found_message :: "string \<Rightarrow> string" where
  "not_found_message input_file =
     ''Input file '' @ [CHR 0x27] @ input_file @ [CHR 0x27] @ '' not found.''"

definition write_tree :: "world \<Rightarrow> string \<Rightarrow> element \<Rightarrow> (error + string) \<times> world" where
  \<comment> \<open>Lines 161 to 168: the file is opened and the declaration written before the tree is
      serialized; then the line is printed and the path returned.\<close>
  "write_tree w output_file rt =
     (case files w output_file of
        Some Directory \<Rightarrow> (Inl (IsADirectoryError output_file), w)
      | _ \<Rightarrow>
          (case tostring rt of
             Inl e \<Rightarrow> (Inl e, w\<lparr>files := (files w)(output_file \<mapsto> File xml_declaration)\<rparr>)
           | Inr body \<Rightarrow>
               (Inr output_file,
                w\<lparr>files := (files w)(output_file \<mapsto> File (xml_declaration @ body)),
                  stdout := stdout w @ [''Cleaned file saved to: '' @ output_file]\<rparr>)))"

definition clean_strava_peloton_tcx ::
  "(string \<Rightarrow> string + element) \<Rightarrow> world \<Rightarrow> string \<Rightarrow> string option \<Rightarrow> (error + string) \<times> world" where
  "clean_strava_peloton_tcx fromstring w input_file output_file =
     (case files w input_file of
        None \<Rightarrow> (Inl (FileNotFoundError (not_found_message input_file)), w)
      | Some Directory \<Rightarrow> (Inl (IsADirectoryError input_file), w)
      | Some (File raw) \<Rightarrow>
          (case parse_content fromstring (py_strip raw) of
             Inl e \<Rightarrow> (Inl e, w)
           | Inr rt \<Rightarrow>
               (case transform rt of
                  Inl e \<Rightarrow> (Inl e, w)
                | Inr rt' \<Rightarrow>
                    write_tree w (case output_file of None \<Rightarrow> input_file | Some p \<Rightarrow> p) rt')))"

section \<open>A parser for a fragment of XML\<close>

text \<open>
  The examples below need a value for the parameter \<open>fromstring\<close>.  \<open>xml_fragment\<close> parses
  the documents of a fragment of XML 1.0 with namespaces: an optional XML declaration at the
  very start, then one element; start, end and empty-element tags with attributes and
  namespace declarations; character data.  It has no comments, processing instructions,
  document type, CDATA sections, entity or character references, and no carriage return;
  names are ASCII.  On such a document it builds the tree that \<open>ET.fromstring\<close> builds
  (the namespace declarations are not attributes of the tree); every other string is an
  error, with a message that holds no line and column.  The theorems about all documents
  are stated for any \<open>fromstring\<close>; this one is used for concrete inputs only.
\<close>

datatype token =
    TOpen string "(string \<times> string) list"
  | TEmpty string "(string \<times> string) list"
  | TClose string
  | TText string

definition xml_space :: "char \<Rightarrow> bool" where
  "xml_space c = (c = CHR '' '' \<or> c = CHR 0x09 \<or> c = CHR 0x0A)"

definition is_name_start :: "char \<Rightarrow> bool" where
  "is_name_start c =
     (let n = (of_char c :: nat) in (65 \<le> n \<and> n \<le> 90) \<or> (97 \<le> n \<and> n \<le> 122) \<or> n = 95)"

definition is_name_char :: "char \<Rightarrow> bool" where
  "is_name_char c = (is_name_start c \<or> is_digit c \<or> c = CHR ''-'' \<or> c = CHR ''.'')"

definition ncname :: "string \<Rightarrow> bool" where
  "ncname s = (s \<noteq> [] \<and> is_name_start (hd s) \<and> list_all is_name_char s)"

definition split_prefix :: "string \<Rightarrow> string option \<times> string" where
  \<comment> \<open>\<open>prefix:local\<close> or \<open>local\<close>.\<close>
  "split_prefix s =
     (let r = dropWhile (\<lambda>c. c \<noteq> CHR '':'') s
      in if r = [] then (None, s) else (Some (takeWhile (\<lambda>c. c \<noteq> CHR '':'') s), tl r))"

definition valid_qname :: "string \<Rightarrow> bool" where
  "valid_qname s = (case split_prefix s of (None, l) \<Rightarrow> ncname l | (Some p, l) \<Rightarrow> ncname p \<and> ncname l)"

definition attr_value_ok :: "string \<Rightarrow> bool" where
  "attr_value_ok v = list_all (\<lambda>c. c \<noteq> CHR ''<'' \<and> c \<noteq> CHR ''&'' \<and> 32 \<le> (of_char c :: nat)) v"

definition char_data_ok :: "string \<Rightarrow> bool" where
  "char_data_ok s =
     list_all (\<lambda>c. c \<noteq> CHR ''&'' \<and> c \<noteq> CHR ''>''
                  \<and> (32 \<le> (of_char c :: nat) \<or> c = CHR 0x09 \<or> c = CHR 0x0A)) s"

fun parse_attrs :: "nat \<Rightarrow> string \<Rightarrow> (string \<times> string) list option" where
  \<comment> \<open>\<open>name="value"\<close> or \<open>name='value'\<close>, each after whitespace; the first argument bounds
      the number of attributes.\<close>
  "parse_attrs 0 s = None"
| "parse_attrs (Suc k) s =
     (let s1 = dropWhile xml_space s
      in if s1 = [] then Some []
         else if s1 = s then None
         else let nm = takeWhile (\<lambda>c. c \<noteq> CHR ''='' \<and> \<not> xml_space c) s1;
                  r = dropWhile xml_space (drop (length nm) s1)
              in case r of
                   [] \<Rightarrow> None
                 | c # r1 \<Rightarrow>
                     if c \<noteq> CHR ''='' then None
                     else (case dropWhile xml_space r1 of
                             [] \<Rightarrow> None
                           | q # r2 \<Rightarrow>
                               if q \<noteq> CHR 0x22 \<and> q \<noteq> CHR 0x27 then None
                               else let v = takeWhile (\<lambda>c. c \<noteq> q) r2;
                                        r3 = dropWhile (\<lambda>c. c \<noteq> q) r2
                                    in if r3 = [] \<or> \<not> attr_value_ok v then None
                                       else map_option ((#) (nm, v)) (parse_attrs k (tl r3))))"

definition parse_tag :: "string \<Rightarrow> token option" where
  \<comment> \<open>What stands between \<open><\<close> and \<open>>\<close>.\<close>
  "parse_tag body =
     (case body of
        [] \<Rightarrow> None
      | c # cs \<Rightarrow>
          if c = CHR ''/'' then
            (let nm = rev (dropWhile xml_space (rev cs))
             in if valid_qname nm then Some (TClose nm) else None)
          else
            (let empty = (last body = CHR ''/'');
                 b = (if empty then butlast body else body);
                 nm = takeWhile (\<lambda>c. \<not> xml_space c) b;
                 rest = dropWhile (\<lambda>c. \<not> xml_space c) b
             in if \<not> valid_qname nm then None
                else (case parse_attrs (Suc (length rest)) rest of
                        None \<Rightarrow> None
                      | Some as \<Rightarrow>
                          if list_all (\<lambda>a. valid_qname (fst a)) as \<and> distinct (map fst as)
                          then Some (if empty then TEmpty nm as else TOpen nm as)
                          else None)))"

fun lex :: "nat \<Rightarrow> string \<Rightarrow> token list option" where
  \<comment> \<open>Tags and the character data between them; the first argument bounds the number of
      tokens.\<close>
  "lex 0 s = (if s = [] then Some [] else None)"
| "lex (Suc k) s =
     (case s of
        [] \<Rightarrow> Some []
      | c # cs \<Rightarrow>
          if c = CHR ''<'' then
            (let body = takeWhile (\<lambda>c. c \<noteq> CHR ''>'') cs;
                 r = dropWhile (\<lambda>c. c \<noteq> CHR ''>'') cs
             in if r = [] then None
                else (case parse_tag body of
                        None \<Rightarrow> None
                      | Some t \<Rightarrow> map_option ((#) t) (lex k (tl r))))
          else
            (let txt = takeWhile (\<lambda>c. c \<noteq> CHR ''<'') s
             in if char_data_ok txt
                then map_option ((#) (TText txt)) (lex k (dropWhile (\<lambda>c. c \<noteq> CHR ''<'') s))
                else None))"

definition xml_ns :: string where
  "xml_ns = ''http://www.w3.org/XML/1998/namespace''"

definition new_bindings :: "(string \<times> string) list \<Rightarrow> (string \<times> string) list option" where
  \<comment> \<open>The namespace declarations among the attributes, as (prefix, uri); the default
      namespace has the empty prefix.\<close>
  "new_bindings as =
     (let ds = filter (\<lambda>a. fst a = ''xmlns'' \<or> fst (split_prefix (fst a)) = Some ''xmlns'') as
      in if list_all (\<lambda>a. fst a = ''xmlns''
                          \<or> (snd a \<noteq> [] \<and> snd (split_prefix (fst a)) \<noteq> ''xml''
                              \<and> snd (split_prefix (fst a)) \<noteq> ''xmlns'')) ds
         then Some (map (\<lambda>a. (if fst a = ''xmlns'' then [] else snd (split_prefix (fst a)), snd a)) ds)
         else None)"

definition expand_element_name :: "(string \<times> string) list \<Rightarrow> string \<Rightarrow> string option" where
  "expand_element_name bs nm =
     (case split_prefix nm of
        (None, l) \<Rightarrow>
          (case map_of bs [] of
             Some u \<Rightarrow> Some (if u \<noteq> [] then qname u l else l)
           | None \<Rightarrow> Some l)
      | (Some p, l) \<Rightarrow> map_option (\<lambda>u. qname u l) (map_of bs p))"

definition expand_attr_name :: "(string \<times> string) list \<Rightarrow> string \<Rightarrow> string option" where
  "expand_attr_name bs nm =
     (case split_prefix nm of
        (None, l) \<Rightarrow> Some l
      | (Some p, l) \<Rightarrow> map_option (\<lambda>u. qname u l) (map_of bs p))"

definition start_element ::
  "(string \<times> string) list \<Rightarrow> string \<Rightarrow> (string \<times> string) list
     \<Rightarrow> ((string \<times> string) list \<times> element) option" where
  \<comment> \<open>The bindings in scope inside the element, and the element as it starts.\<close>
  "start_element bs nm as =
     (case new_bindings as of
        None \<Rightarrow> None
      | Some ds \<Rightarrow>
          (let bs' = ds @ bs;
               plain = filter (\<lambda>a. \<not> (fst a = ''xmlns'' \<or> fst (split_prefix (fst a)) = Some ''xmlns'')) as;
               names = map (\<lambda>a. expand_attr_name bs' (fst a)) plain
           in case expand_element_name bs' nm of
                None \<Rightarrow> None
              | Some t \<Rightarrow>
                  if list_all (\<lambda>n. n \<noteq> None) names \<and> distinct names
                  then Some (bs', Element t (zip (map the names) (map snd plain)) None [] None)
                  else None))"

fun set_tail :: "string option \<Rightarrow> element \<Rightarrow> element" where
  "set_tail x (Element t a y cs _) = Element t a y cs x"

definition add_data :: "string \<Rightarrow> element \<Rightarrow> element" where
  \<comment> \<open>Character data inside an open element: its text before the first child, the tail of
      the last child after it.\<close>
  "add_data s e =
     (if children e = [] then set_text (Some s) e
      else set_children (butlast (children e) @ [set_tail (Some s) (last (children e))]) e)"

fun build ::
  "token list \<Rightarrow> (string \<times> (string \<times> string) list \<times> element) list \<Rightarrow> element option
     \<Rightarrow> string + element" where
  \<comment> \<open>The stack holds the open elements with the name in their start tag and the bindings
      in scope; the third argument is the root once it is closed.\<close>
  "build [] st rt =
     (case st of
        [] \<Rightarrow> (case rt of None \<Rightarrow> Inl ''no element found'' | Some r \<Rightarrow> Inr r)
      | _ # _ \<Rightarrow> Inl ''no element found'')"
| "build (TText s # ts) st rt =
     (case st of
        [] \<Rightarrow> if list_all xml_space s then build ts [] rt
              else Inl (if rt = None then ''syntax error'' else ''junk after document element'')
      | (n, bs, e) # st' \<Rightarrow> build ts ((n, bs, add_data s e) # st') rt)"
| "build (TOpen nm as # ts) st rt =
     (if st = [] \<and> rt \<noteq> None then Inl ''junk after document element''
      else case start_element (case st of [] \<Rightarrow> [(''xml'', xml_ns)] | (n, bs, e) # _ \<Rightarrow> bs) nm as of
             None \<Rightarrow> Inl ''not well-formed (invalid token)''
           | Some (bs', e) \<Rightarrow> build ts ((nm, bs', e) # st) rt)"
| "build (TEmpty nm as # ts) st rt =
     (if st = [] \<and> rt \<noteq> None then Inl ''junk after document element''
      else case start_element (case st of [] \<Rightarrow> [(''xml'', xml_ns)] | (n, bs, e) # _ \<Rightarrow> bs) nm as of
             None \<Rightarrow> Inl ''not well-formed (invalid token)''
           | Some (bs', e) \<Rightarrow>
               (case st of
                  [] \<Rightarrow> build ts [] (Some e)
                | (n, bs, p) # st' \<Rightarrow> build ts ((n, bs, set_children (children p @ [e]) p) # st') rt))"
| "build (TClose nm # ts) st rt =
     (case st of
        [] \<Rightarrow> Inl ''not well-formed (invalid token)''
      | (n, bs, e) # st' \<Rightarrow>
          if n \<noteq> nm then Inl ''mismatched tag''
          else (case st' of
                  [] \<Rightarrow> build ts [] (Some e)
                | (n', bs', p) # st'' \<Rightarrow>
                    build ts ((n', bs', set_children (children p @ [e]) p) # st'') rt))"

definition parse_document :: "string \<Rightarrow> string + element" where
  "parse_document s =
     (case lex (length s) s of
        None \<Rightarrow> Inl ''not well-formed (invalid token)''
      | Some ts \<Rightarrow> build ts [] None)"

definition declaration_ok :: "(string \<times> string) list \<Rightarrow> bool" where
  \<comment> \<open>\<open>version\<close>, then \<open>encoding\<close> and \<open>standalone\<close> if present.\<close>
  "declaration_ok as =
     (case as of
        [] \<Rightarrow> False
      | v # r \<Rightarrow>
          v = (''version'', ''1.0'')
          \<and> (let r1 = (case r of
                         [] \<Rightarrow> []
                       | e # r' \<Rightarrow> if e = (''encoding'', ''utf-8'') \<or> e = (''encoding'', ''UTF-8'')
                                   then r' else r)
             in r1 = [] \<or> r1 = [(''standalone'', ''yes'')] \<or> r1 = [(''standalone'', ''no'')]))"

definition xml_fragment :: "string \<Rightarrow> string + element" where
  "xml_fragment s =
     (if startswith s ''<?xml'' \<and> 5 < length s \<and> xml_space (s ! 5) then
        (let i = str_find s ''?>''
         in if i < 0 then Inl ''unclosed token''
            else (case parse_attrs (Suc (length s)) (take (nat i - 5) (drop 5 s)) of
                    None \<Rightarrow> Inl ''XML declaration not well-formed''
                  | Some as \<Rightarrow>
                      if declaration_ok as then parse_document (drop (nat i + 2) s)
                      else Inl ''XML declaration not well-formed''))
      else parse_document s)"

section \<open>Sample documents\<close>

definition world_with :: "string \<Rightarrow> string \<Rightarrow> world" where
  \<comment> \<open>A file system with one file, and nothing printed yet.\<close>
  "world_with path content = \<lparr>files = [path \<mapsto> File content], stdout = []\<rparr>"

definition tcx_open :: string where
  \<comment> \<open>The start tag of the root of a TCX document, declaring the two namespaces.\<close>
  "tcx_open = ''<TrainingCenterDatabase xmlns='' @ dq @ ns_tcx @ dq
              @ '' xmlns:ae='' @ dq @ ns_ext @ dq @ ''>''"

definition tcx_close :: string where
  "tcx_close = ''</TrainingCenterDatabase>''"

definition tcx_root :: "element list \<Rightarrow> element" where
  "tcx_root cs = Element (tcx ''TrainingCenterDatabase'') [] None cs None"

definition leaf :: "string \<Rightarrow> string option \<Rightarrow> element" where
  \<comment> \<open>An element with no attribute, child or tail.\<close>
  "leaf t x = Element t [] x [] None"

definition node :: "string \<Rightarrow> element list \<Rightarrow> element" where
  \<comment> \<open>An element with children only.\<close>
  "node t cs = Element t [] None cs None"


definition doc_empty_calories :: string where
  \<comment> \<open>A Lap whose Calories element is empty.\<close>
  "doc_empty_calories =
     tcx_open @ ''<Activities><Activity><Lap><Calories></Calories></Lap></Activity></Activities>''
     @ tcx_close"

definition tree_empty_calories :: element where
  "tree_empty_calories =
     tcx_root [node (tcx ''Activities'') [node (tcx ''Activity'')
       [node (tcx ''Lap'') [leaf (tcx ''Calories'') None]]]]"







definition lap_with_tpx :: element where
  \<comment> \<open>A Lap with the extension block of a Peloton export.\<close>
  "lap_with_tpx =
     node (tcx ''Lap'')
       [leaf (tcx ''Calories'') (Some ''185.6''),
        node (tcx ''Extensions'')
          [node (ext ''TPX'')
             [leaf (ext ''TotalPower'') (Some ''512.0''),
              leaf (ext ''AverageCadence'') (Some ''78.0''),
              leaf (ext ''MaximumWatts'') (Some ''250.4'')]]]"

definition lap_with_lx :: element where
  "lap_with_lx =
     node (tcx ''Lap'')
       [leaf (tcx ''Calories'') (Some ''186''),
        node (tcx ''Extensions'')
          [node (ext ''LX'')
             [leaf (ext ''AvgCadence'') (Some ''78''),
              leaf (ext ''MaxWatts'') (Some ''250'')]]]"

definition tp_block :: "element list \<Rightarrow> element" where
  \<comment> \<open>A Trackpoint whose extension block has the given children.\<close>
  "tp_block cs = node (tcx ''Trackpoint'') [node (tcx ''Extensions'') [node (ext ''TPX'') cs]]"

definition tree_two_resistance :: element where
  \<comment> \<open>A Trackpoint whose extension block holds two Resistance children and Watts.\<close>
  "tree_two_resistance =
     tcx_root [node (tcx ''Activities'') [node (tcx ''Activity'')
       [node (tcx ''Lap'') [node (tcx ''Track'')
          [tp_block [leaf (ext ''Resistance'') (Some ''35''),
                     leaf (ext ''Watts'') (Some ''145.3''),
                     leaf (ext ''Resistance'') (Some ''40'')]]]]]]"

definition tree_two_resistance_out :: element where
  "tree_two_resistance_out =
     tcx_root [node (tcx ''Activities'') [node (tcx ''Activity'')
       [node (tcx ''Lap'') [node (tcx ''Track'')
          [tp_block [leaf (ext ''Watts'') (Some ''145''),
                     leaf (ext ''Resistance'') (Some ''40'')]]]]]]"

section \<open>What the claims speak of\<close>

subsection \<open>Creator elements under Activity elements\<close>

fun creator_sites :: "element \<Rightarrow> nat" where
  \<comment> \<open>The number of Creator elements that are a direct child of an Activity element,
      anywhere in the tree.\<close>
  "creator_sites (Element t a x cs ta) =
     (if t = tcx ''Activity'' then length (filter (\<lambda>c. tag c = tcx ''Creator'') cs) else 0)
     + sum_list (map creator_sites cs)"

subsection \<open>The documented edits\<close>

text \<open>
  One documented edit of an element that stands under the ancestors tagged \<open>ctx\<close> (the
  parent first): a removal, a rounding or a renaming at the place the specification names,
  or one such edit inside a child.  An edit changes what it names and nothing else: the
  other fields of the element, its other children and their order stay.
\<close>

definition removable :: "string list \<Rightarrow> string \<Rightarrow> bool" where
  \<comment> \<open>A child tagged \<open>t\<close> under the ancestors \<open>ctx\<close> that the transformation may remove.\<close>
  "removable ctx t =
     ((t = tcx ''Creator'' \<and> take 1 ctx = [tcx ''Activity''])
      \<or> (t = tcx ''Cadence'' \<and> take 1 ctx = [tcx ''Lap''])
      \<or> (t = ext ''Resistance'' \<and> take 3 ctx = [ext ''TPX'', tcx ''Extensions'', tcx ''Trackpoint''])
      \<or> (local_name t \<in> set to_remove_names
          \<and> take 3 ctx = [ext ''TPX'', tcx ''Extensions'', tcx ''Lap'']))"

definition round_target :: "string list \<Rightarrow> string \<Rightarrow> bool" where
  \<comment> \<open>An element tagged \<open>t\<close> under the ancestors \<open>ctx\<close> whose text may be rounded.\<close>
  "round_target ctx t =
     ((t = tcx ''Calories'' \<and> take 1 ctx = [tcx ''Lap''])
      \<or> (t = tcx ''Value''
          \<and> (take 2 ctx = [tcx ''AverageHeartRateBpm'', tcx ''Lap'']
              \<or> take 2 ctx = [tcx ''MaximumHeartRateBpm'', tcx ''Lap'']
              \<or> take 2 ctx = [tcx ''HeartRateBpm'', tcx ''Trackpoint'']))
      \<or> (t = tcx ''Cadence'' \<and> take 1 ctx = [tcx ''Trackpoint''])
      \<or> (t = ext ''Watts'' \<and> take 3 ctx = [ext ''TPX'', tcx ''Extensions'', tcx ''Trackpoint''])
      \<or> take 3 ctx = [ext ''TPX'', tcx ''Extensions'', tcx ''Lap''])"

definition retag_target :: "string list \<Rightarrow> string \<Rightarrow> string \<Rightarrow> bool" where
  \<comment> \<open>An element tagged \<open>t\<close> under the ancestors \<open>ctx\<close> that may be retagged \<open>t'\<close>.\<close>
  "retag_target ctx t t' =
     ((t = ext ''TPX'' \<and> t' = ext ''LX'' \<and> take 2 ctx = [tcx ''Extensions'', tcx ''Lap''])
      \<or> (take 3 ctx = [ext ''TPX'', tcx ''Extensions'', tcx ''Lap'']
          \<and> map_option ext (map_of rename_map (local_name t)) = Some t'))"

inductive edit :: "string list \<Rightarrow> element \<Rightarrow> element \<Rightarrow> bool" where
  remove_child:
    "children e = pre @ c # post \<Longrightarrow> removable (tag e # ctx) (tag c)
     \<Longrightarrow> edit ctx e (set_children (pre @ post) e)"
| round_text:
    "round_target ctx (tag e) \<Longrightarrow> rounded (text_el e) = Inr x \<Longrightarrow> edit ctx e (set_text x e)"
| retag:
    "retag_target ctx (tag e) t \<Longrightarrow> edit ctx e (set_tag t e)"
| inside:
    "children e = pre @ c # post \<Longrightarrow> edit (tag e # ctx) c c'
     \<Longrightarrow> edit ctx e (set_children (pre @ c' # post) e)"

section \<open>Basic facts\<close>

lemma and_then_Inl [simp]: "and_then (Inl e) f = Inl e"
  by (simp add: and_then_def)

lemma and_then_Inr [simp]: "and_then (Inr v) f = f v"
  by (simp add: and_then_def)

lemma and_then_eq_Inr: "and_then r f = Inr y \<longleftrightarrow> (\<exists>v. r = Inr v \<and> f v = Inr y)"
  by (cases r) simp_all

lemma tag_set_text [simp]: "tag (set_text x e) = tag e"
  by (cases e) simp

lemma attrib_set_text [simp]: "attrib (set_text x e) = attrib e"
  by (cases e) simp

lemma text_set_text [simp]: "text_el (set_text x e) = x"
  by (cases e) simp

lemma children_set_text [simp]: "children (set_text x e) = children e"
  by (cases e) simp

lemma tail_set_text [simp]: "tail (set_text x e) = tail e"
  by (cases e) simp

lemma tag_set_tag [simp]: "tag (set_tag t e) = t"
  by (cases e) simp

lemma attrib_set_tag [simp]: "attrib (set_tag t e) = attrib e"
  by (cases e) simp

lemma text_set_tag [simp]: "text_el (set_tag t e) = text_el e"
  by (cases e) simp

lemma children_set_tag [simp]: "children (set_tag t e) = children e"
  by (cases e) simp

lemma tail_set_tag [simp]: "tail (set_tag t e) = tail e"
  by (cases e) simp

lemma tag_set_children [simp]: "tag (set_children cs e) = tag e"
  by (cases e) simp

lemma attrib_set_children [simp]: "attrib (set_children cs e) = attrib e"
  by (cases e) simp

lemma text_set_children [simp]: "text_el (set_children cs e) = text_el e"
  by (cases e) simp

lemma children_set_children [simp]: "children (set_children cs e) = cs"
  by (cases e) simp

lemma tail_set_children [simp]: "tail (set_children cs e) = tail e"
  by (cases e) simp

lemma qname_inject [simp]: "qname u a = qname u b \<longleftrightarrow> a = b"
  by (simp add: qname_def)

lemma tcx_neq_ext [simp]: "tcx a \<noteq> ext b" "ext b \<noteq> tcx a"
  by (simp_all add: qname_def ns_tcx_def ns_ext_def)

subsection \<open>Searching after an edit\<close>

lemma find_tag_update_first_same:
  "\<forall>x. tag (f x) = tag x \<Longrightarrow>
   List.find (\<lambda>c. tag c = t) (update_first (\<lambda>c. tag c = t) f xs)
     = map_option f (List.find (\<lambda>c. tag c = t) xs)"
  by (induction xs) auto

lemma find_tag_update_first_other:
  "\<forall>x. tag (f x) = tag x \<Longrightarrow> \<forall>x. P x \<longrightarrow> tag x \<noteq> t \<Longrightarrow>
   List.find (\<lambda>c. tag c = t) (update_first P f xs) = List.find (\<lambda>c. tag c = t) xs"
  by (induction xs) auto

lemma find_tag_remove_first_other:
  "\<forall>x. P x \<longrightarrow> tag x \<noteq> t \<Longrightarrow>
   List.find (\<lambda>c. tag c = t) (remove_first P xs) = List.find (\<lambda>c. tag c = t) xs"
  by (induction xs) auto

lemma round_child_find_same:
  assumes "round_child t e = Inr e'" and "find_child t e = Some c"
  shows "\<exists>x. rounded (text_el c) = Inr x \<and> find_child t e' = Some (set_text x c)"
  using assms
  by (auto simp: round_child_def find_child_def and_then_eq_Inr find_tag_update_first_same)

lemma round_child_find_other:
  assumes "round_child t e = Inr e'" and "t \<noteq> u"
  shows "find_child u e' = find_child u e"
  using assms
  by (auto simp: round_child_def find_child_def and_then_eq_Inr find_tag_update_first_other
      split: option.splits)

lemma round_grandchild_find_other:
  assumes "round_grandchild a b e = Inr e'" and "a \<noteq> u"
  shows "find_child u e' = find_child u e"
  using assms
  by (auto simp: round_grandchild_def find_child_def and_then_eq_Inr find_tag_update_first_other
      split: option.splits)


lemma process_lap_steps:
  assumes "process_lap lap = Inr lap'"
  obtains l1 l2 l3 where
    "round_child (tcx ''Calories'')
       (set_children (remove_first (\<lambda>c. tag c = tcx ''Cadence'') (children lap)) lap) = Inr l1"
    "round_grandchild (tcx ''AverageHeartRateBpm'') (tcx ''Value'') l1 = Inr l2"
    "round_grandchild (tcx ''MaximumHeartRateBpm'') (tcx ''Value'') l2 = Inr l3"
    "lap_extensions l3 = Inr lap'"
  using assms by (auto simp: process_lap_def and_then_eq_Inr)


subsection \<open>Rounding\<close>





subsection \<open>The extension block of a Lap\<close>

lemma sequence_map_Inr:
  "sequence (map f xs) = Inr rs \<Longrightarrow> list_all2 (\<lambda>x r. f x = Inr r) xs rs"
proof (induction xs arbitrary: rs)
  case Nil
  then show ?case by simp
next
  case (Cons x xs)
  then show ?case
    by (auto split: sum.splits)
qed

lemma list_all2_set1: "list_all2 R xs ys \<Longrightarrow> x \<in> set xs \<Longrightarrow> \<exists>y \<in> set ys. R x y"
  by (induction rule: list_all2_induct) auto

lemma list_all2_set2: "list_all2 R xs ys \<Longrightarrow> y \<in> set ys \<Longrightarrow> \<exists>x \<in> set xs. R x y"
  by (induction rule: list_all2_induct) auto

lemma local_name_qname:
  assumes "CHR ''}'' \<notin> set l"
  shows "local_name (qname u l) = l"
proof -
  have "rev (qname u l) = rev l @ (CHR ''}'' # rev u @ ''{'')"
    by (simp add: qname_def)
  moreover have "takeWhile (\<lambda>c. c \<noteq> CHR ''}'') (rev l @ (CHR ''}'' # rev u @ ''{'')) = rev l"
    using assms by (subst takeWhile_append2) auto
  ultimately show ?thesis
    by (simp add: local_name_def)
qed

lemma lx_child_result:
  assumes "lx_child c = Inr (rm, c')"
  shows "rm = (local_name (tag c) \<in> set to_remove_names)"
    and "tag c' = (if rm then tag c
                   else case map_of rename_map (local_name (tag c)) of Some n \<Rightarrow> ext n | None \<Rightarrow> tag c)"
    and "attrib c' = attrib c" and "children c' = children c" and "tail c' = tail c"
    and "text_el c = None \<or> text_el c = Some [] \<Longrightarrow> text_el c' = text_el c"
    and "text_el c \<noteq> None \<Longrightarrow> text_el c \<noteq> Some [] \<Longrightarrow> rounded (text_el c) = Inr (text_el c')"
  using assms
  by (auto simp: lx_child_def Let_def and_then_eq_Inr split: if_splits option.splits)

lemma lap_tpx_result:
  assumes "lap_tpx tpx = Inr lx"
  shows "tag lx = ext ''LX''" and "attrib lx = attrib tpx" and "text_el lx = text_el tpx"
    and "tail lx = tail tpx"
    and "\<exists>rs. list_all2 (\<lambda>c r. lx_child c = Inr r) (children tpx) rs
              \<and> children lx = map snd (filter (\<lambda>r. \<not> fst r) rs)"
  using assms
  by (auto simp: lap_tpx_def and_then_eq_Inr dest: sequence_map_Inr)

lemma rounded_78_0: "rounded (Some ''78.0'') = Inr (Some ''78'')"
  by code_simp

lemma lap_tpx_renamed:
  assumes "lap_tpx tpx = Inr lx" and "c \<in> set (children tpx)"
    and "map_of rename_map (local_name (tag c)) = Some new"
  shows "\<exists>c' \<in> set (children lx). tag c' = ext new \<and> attrib c' = attrib c
            \<and> children c' = children c \<and> tail c' = tail c
            \<and> (text_el c = Some ''78.0'' \<longrightarrow> text_el c' = Some ''78'')"
proof -
  from lap_tpx_result(5) [OF assms(1)] obtain rs where
    rs: "list_all2 (\<lambda>c r. lx_child c = Inr r) (children tpx) rs"
        "children lx = map snd (filter (\<lambda>r. \<not> fst r) rs)"
    by blast
  from list_all2_set1 [OF rs(1) assms(2)] obtain r where r: "r \<in> set rs" "lx_child c = Inr r"
    by blast
  obtain rm c' where rc: "r = (rm, c')"
    by (cases r)
  have nrm: "local_name (tag c) \<notin> set to_remove_names"
    using assms(3) by (auto simp: rename_map_def to_remove_names_def split: if_splits)
  from lx_child_result [OF r(2) [unfolded rc]] nrm assms(3)
  have "\<not> rm" "tag c' = ext new" "attrib c' = attrib c" "children c' = children c"
    "tail c' = tail c" "text_el c = Some ''78.0'' \<longrightarrow> text_el c' = Some ''78''"
    by (auto simp: rounded_78_0)
  moreover have "c' \<in> set (children lx)"
    using r(1) rc \<open>\<not> rm\<close> rs(2) by force
  ultimately show ?thesis
    by blast
qed

lemma lap_tpx_names:
  assumes "lap_tpx tpx = Inr lx" and "c' \<in> set (children lx)"
  shows "local_name (tag c') \<notin> set to_remove_names \<and> map_of rename_map (local_name (tag c')) = None"
proof -
  from lap_tpx_result(5) [OF assms(1)] obtain rs where
    rs: "list_all2 (\<lambda>c r. lx_child c = Inr r) (children tpx) rs"
        "children lx = map snd (filter (\<lambda>r. \<not> fst r) rs)"
    by blast
  from assms(2) rs(2) obtain rm where r: "(rm, c') \<in> set rs" "\<not> rm"
    by auto
  from list_all2_set2 [OF rs(1) r(1)] obtain c where c: "lx_child c = Inr (rm, c')"
    by blast
  from lx_child_result(1,2) [OF c] r(2)
  have n: "local_name (tag c) \<notin> set to_remove_names"
    and t: "tag c' = (case map_of rename_map (local_name (tag c)) of Some n \<Rightarrow> ext n | None \<Rightarrow> tag c)"
    by auto
  show ?thesis
  proof (cases "map_of rename_map (local_name (tag c))")
    case None
    with n t show ?thesis by simp
  next
    case (Some new)
    then have "new \<in> {''AvgCadence'', ''MaxCadence'', ''AvgWatts'', ''MaxWatts''}"
      by (auto simp: rename_map_def split: if_splits)
    moreover have "tag c' = ext new"
      using t Some by simp
    ultimately show ?thesis
      by (auto simp: local_name_qname rename_map_def to_remove_names_def)
  qed
qed

lemma find_update_first_replace:
  "List.find P xs = Some y \<Longrightarrow> List.find P (update_first P (\<lambda>_. z) xs) = (if P z then Some z else List.find P (remove_first P xs))"
  by (induction xs) (auto split: if_splits)

lemma lap_extensions_result:
  assumes "lap_extensions l = Inr l'"
    and "find_child (tcx ''Extensions'') l = Some extensions"
    and "find_child (ext ''TPX'') extensions = Some tpx"
  shows "\<exists>lx. lap_tpx tpx = Inr lx
           \<and> find_child (tcx ''Extensions'') l'
             = Some (set_children
                 (update_first (\<lambda>c. tag c = ext ''TPX'') (\<lambda>_. lx) (children extensions)) extensions)"
  using assms
  by (auto simp: lap_extensions_def and_then_eq_Inr find_child_def find_tag_update_first_same)

lemma process_lap_extensions_kept:
  assumes "process_lap lap = Inr lap'"
  obtains l3 where "lap_extensions l3 = Inr lap'"
    and "find_child (tcx ''Extensions'') l3 = find_child (tcx ''Extensions'') lap"
proof -
  let ?l0 = "set_children (remove_first (\<lambda>c. tag c = tcx ''Cadence'') (children lap)) lap"
  from assms obtain l1 l2 l3 where
    1: "round_child (tcx ''Calories'') ?l0 = Inr l1" and
    2: "round_grandchild (tcx ''AverageHeartRateBpm'') (tcx ''Value'') l1 = Inr l2" and
    3: "round_grandchild (tcx ''MaximumHeartRateBpm'') (tcx ''Value'') l2 = Inr l3" and
    4: "lap_extensions l3 = Inr lap'"
    by (rule process_lap_steps)
  have "find_child (tcx ''Extensions'') ?l0 = find_child (tcx ''Extensions'') lap"
    by (simp add: find_child_def find_tag_remove_first_other)
  then have "find_child (tcx ''Extensions'') l3 = find_child (tcx ''Extensions'') lap"
    using round_child_find_other [OF 1, of "tcx ''Extensions''"]
      round_grandchild_find_other [OF 2, of "tcx ''Extensions''"]
      round_grandchild_find_other [OF 3, of "tcx ''Extensions''"] by simp
  with 4 show thesis
    by (rule that)
qed

subsection \<open>The extension block of a Trackpoint\<close>

lemma map_tag_update_first:
  "\<forall>x. tag (f x) = tag x \<Longrightarrow> map tag (update_first P f xs) = map tag xs"
  by (induction xs) auto

lemma length_filter_remove_first:
  "length (filter P (remove_first P xs)) = length (filter P xs) - 1"
  by (induction xs) auto

lemma filter_tag_length: "length (filter (\<lambda>c. tag c = t) xs) = length (filter (\<lambda>n. n = t) (map tag xs))"
  by (induction xs) auto

lemma round_child_tags:
  assumes "round_child t e = Inr e'"
  shows "tag e' = tag e" and "map tag (children e') = map tag (children e)"
  using assms
  by (auto simp: round_child_def and_then_eq_Inr map_tag_update_first split: option.splits)

lemma tp_tpx_result:
  assumes "tp_tpx tpx = Inr tpx'"
  shows "tag tpx' = tag tpx"
    and "length (filter (\<lambda>c. tag c = ext ''Resistance'') (children tpx'))
         = length (filter (\<lambda>c. tag c = ext ''Resistance'') (children tpx)) - 1"
    and "find_child (ext ''Watts'') tpx = Some w \<Longrightarrow>
         \<exists>x. rounded (text_el w) = Inr x \<and> find_child (ext ''Watts'') tpx' = Some (set_text x w)"
proof -
  let ?t0 = "set_children (remove_first (\<lambda>c. tag c = ext ''Resistance'') (children tpx)) tpx"
  have r: "round_child (ext ''Watts'') ?t0 = Inr tpx'"
    using assms by (simp add: tp_tpx_def)
  show "tag tpx' = tag tpx"
    using round_child_tags(1) [OF r] by simp
  have "length (filter (\<lambda>c. tag c = ext ''Resistance'') (children tpx'))
        = length (filter (\<lambda>c. tag c = ext ''Resistance'') (children ?t0))"
    using round_child_tags(2) [OF r] by (simp add: filter_tag_length)
  then show "length (filter (\<lambda>c. tag c = ext ''Resistance'') (children tpx'))
         = length (filter (\<lambda>c. tag c = ext ''Resistance'') (children tpx)) - 1"
    by (simp add: length_filter_remove_first)
  show "\<exists>x. rounded (text_el w) = Inr x \<and> find_child (ext ''Watts'') tpx' = Some (set_text x w)"
    if "find_child (ext ''Watts'') tpx = Some w"
  proof -
    have "find_child (ext ''Watts'') ?t0 = Some w"
      using that by (simp add: find_child_def find_tag_remove_first_other)
    from round_child_find_same [OF r this] show ?thesis .
  qed
qed

lemma tp_extensions_result:
  assumes "tp_extensions l = Inr l'"
    and "find_child (tcx ''Extensions'') l = Some extensions"
    and "find_child (ext ''TPX'') extensions = Some tpx"
  shows "\<exists>tpx'. tp_tpx tpx = Inr tpx'
           \<and> find_child (tcx ''Extensions'') l'
             = Some (set_children
                 (update_first (\<lambda>c. tag c = ext ''TPX'') (\<lambda>_. tpx') (children extensions)) extensions)"
  using assms
  by (auto simp: tp_extensions_def and_then_eq_Inr find_child_def find_tag_update_first_same)

lemma process_trackpoint_extensions_kept:
  assumes "process_trackpoint tp = Inr tp'"
  obtains t2 where "tp_extensions t2 = Inr tp'"
    and "find_child (tcx ''Extensions'') t2 = find_child (tcx ''Extensions'') tp"
proof -
  from assms obtain t1 t2 where
    1: "round_grandchild (tcx ''HeartRateBpm'') (tcx ''Value'') tp = Inr t1" and
    2: "round_child (tcx ''Cadence'') t1 = Inr t2" and
    3: "tp_extensions t2 = Inr tp'"
    by (auto simp: process_trackpoint_def and_then_eq_Inr)
  have "find_child (tcx ''Extensions'') t2 = find_child (tcx ''Extensions'') tp"
    using round_grandchild_find_other [OF 1, of "tcx ''Extensions''"]
      round_child_find_other [OF 2, of "tcx ''Extensions''"] by simp
  with 3 show thesis
    by (rule that)
qed

lemma rounded_145_3: "rounded (Some ''145.3'') = Inr (Some ''145'')"
  by code_simp

lemma transform_tree_two_resistance: "transform tree_two_resistance = Inr tree_two_resistance_out"
  by code_simp

subsection \<open>Evaluation of the sample documents\<close>

lemma strip_doc_empty_calories: "py_strip doc_empty_calories = doc_empty_calories"
  by code_simp

lemma parse_doc_empty_calories: "xml_fragment doc_empty_calories = Inr tree_empty_calories"
  by code_simp

lemma transform_tree_empty_calories:
  "transform tree_empty_calories
   = Inl (TypeError (''float() argument must be a string or a real number, not ''
                     @ [CHR 0x27] @ ''NoneType'' @ [CHR 0x27]))"
  by code_simp












section \<open>The claims\<close>

subsection \<open>C5: a missing input file\<close>

text \<open>
  C5.  When the input path names no file, the function raises FileNotFoundError with the
  message \<open>Input file '<path>' not found.\<close>, which contains the path, and the world is
  the one before the call: no file has been written and nothing printed.
\<close>

theorem missing_input_not_found:
  assumes "files w input_file = None"
  shows "clean_strava_peloton_tcx fromstring w input_file output_file
         = (Inl (FileNotFoundError
              (''Input file '' @ [CHR 0x27] @ input_file @ [CHR 0x27] @ '' not found.'')), w)"
  using assms by (simp add: clean_strava_peloton_tcx_def not_found_message_def)

theorem missing_input_not_found_witness:
  "files \<lparr>files = Map.empty, stdout = []\<rparr> ''ride.tcx'' = None
   \<and> clean_strava_peloton_tcx (\<lambda>s. Inl ''no element found'') \<lparr>files = Map.empty, stdout = []\<rparr>
        ''ride.tcx'' (Some ''out.tcx'')
      = (Inl (FileNotFoundError
           (''Input file '' @ [CHR 0x27] @ ''ride.tcx'' @ [CHR 0x27] @ '' not found.'')),
         \<lparr>files = Map.empty, stdout = []\<rparr>)"
proof (rule conjI)
  show h: "files \<lparr>files = Map.empty, stdout = []\<rparr> ''ride.tcx'' = None"
    by simp
  show "clean_strava_peloton_tcx (\<lambda>s. Inl ''no element found'') \<lparr>files = Map.empty, stdout = []\<rparr>
        ''ride.tcx'' (Some ''out.tcx'')
      = (Inl (FileNotFoundError
           (''Input file '' @ [CHR 0x27] @ ''ride.tcx'' @ [CHR 0x27] @ '' not found.'')),
         \<lparr>files = Map.empty, stdout = []\<rparr>)"
    by (rule missing_input_not_found [OF h])
qed

subsection \<open>C6: Calories are rounded, not truncated\<close>



subsection \<open>C10: a tie goes to the even integer\<close>



subsection \<open>C1: a field that is not a number\<close>

text \<open>
  C1 (the code departs from the claim).  The input holds a Lap whose Calories element is
  empty, so that its text is \<open>None\<close>.  \<open>float(None)\<close> raises TypeError, which
  \<open>except ValueError\<close> does not catch: the function ends with this exception and the
  world is unchanged, no file has been written.
\<close>

theorem empty_calories_raises:
  "clean_strava_peloton_tcx xml_fragment (world_with ''ride.tcx'' doc_empty_calories)
     ''ride.tcx'' None
   = (Inl (TypeError (''float() argument must be a string or a real number, not ''
                      @ [CHR 0x27] @ ''NoneType'' @ [CHR 0x27])),
      world_with ''ride.tcx'' doc_empty_calories)"
  by (simp add: clean_strava_peloton_tcx_def world_with_def parse_content_def
      strip_doc_empty_calories parse_doc_empty_calories transform_tree_empty_calories)

subsection \<open>C4: the second parse\<close>




subsection \<open>C7: the extension block of a Lap\<close>

text \<open>
  C7.  Let the loop body run on a Lap without raising, and let \<open>lap.find("Extensions")\<close>
  return an element in which \<open>find("ae:TPX")\<close> returns the block \<open>tpx\<close>.  Afterwards the
  Extensions element holds, at the place of \<open>tpx\<close>, a block \<open>lx\<close> tagged \<open>LX\<close> in the
  extension namespace, with the attributes, text and tail of \<open>tpx\<close>.  Every child of
  \<open>tpx\<close> named AverageCadence, MaximumCadence, AverageWatts or MaximumWatts has a child
  of \<open>lx\<close> for it that is tagged AvgCadence, MaxCadence, AvgWatts or MaxWatts in the
  extension namespace and has the same attributes, children and tail; the text \<open>78.0\<close>
  has become \<open>78\<close>.  No child of \<open>lx\<close> is named by one of the four old names, or
  TotalPower, AverageResistance or MaximumResistance.
\<close>

theorem lap_extension_block_renamed:
  assumes "process_lap lap = Inr lap'"
    and "find_child (tcx ''Extensions'') lap = Some extensions"
    and "find_child (ext ''TPX'') extensions = Some tpx"
  shows "\<exists>lx. find_child (tcx ''Extensions'') lap'
               = Some (set_children
                   (update_first (\<lambda>c. tag c = ext ''TPX'') (\<lambda>_. lx) (children extensions))
                   extensions)
          \<and> tag lx = ext ''LX'' \<and> attrib lx = attrib tpx \<and> text_el lx = text_el tpx
          \<and> tail lx = tail tpx
          \<and> (\<forall>c \<in> set (children tpx). \<forall>old new.
                (old, new) \<in> {(''AverageCadence'', ''AvgCadence''), (''MaximumCadence'', ''MaxCadence''),
                               (''AverageWatts'', ''AvgWatts''), (''MaximumWatts'', ''MaxWatts'')}
                \<and> local_name (tag c) = old
                \<longrightarrow> (\<exists>c' \<in> set (children lx).
                       tag c' = ext new \<and> attrib c' = attrib c \<and> children c' = children c
                       \<and> tail c' = tail c
                       \<and> (text_el c = Some ''78.0'' \<longrightarrow> text_el c' = Some ''78'')))
          \<and> (\<forall>c' \<in> set (children lx).
                local_name (tag c') \<notin> {''AverageCadence'', ''MaximumCadence'', ''AverageWatts'',
                                           ''MaximumWatts'', ''TotalPower'', ''AverageResistance'',
                                           ''MaximumResistance''})"
proof -
  from assms(1) obtain l3 where l3: "lap_extensions l3 = Inr lap'"
    "find_child (tcx ''Extensions'') l3 = find_child (tcx ''Extensions'') lap"
    by (rule process_lap_extensions_kept)
  from lap_extensions_result [OF l3(1) _ assms(3)] l3(2) assms(2) obtain lx where
    lx: "lap_tpx tpx = Inr lx"
    "find_child (tcx ''Extensions'') lap'
       = Some (set_children
           (update_first (\<lambda>c. tag c = ext ''TPX'') (\<lambda>_. lx) (children extensions)) extensions)"
    by auto
  have ren: "\<exists>c' \<in> set (children lx).
               tag c' = ext new \<and> attrib c' = attrib c \<and> children c' = children c
               \<and> tail c' = tail c \<and> (text_el c = Some ''78.0'' \<longrightarrow> text_el c' = Some ''78'')"
    if "c \<in> set (children tpx)"
      and "(old, new) \<in> {(''AverageCadence'', ''AvgCadence''), (''MaximumCadence'', ''MaxCadence''),
                           (''AverageWatts'', ''AvgWatts''), (''MaximumWatts'', ''MaxWatts'')}"
      and "local_name (tag c) = old" for c old new
  proof -
    have "map_of rename_map (local_name (tag c)) = Some new"
      using that(2,3) by (auto simp: rename_map_def)
    from lap_tpx_renamed [OF lx(1) that(1) this] show ?thesis .
  qed
  have names: "local_name (tag c') \<notin> {''AverageCadence'', ''MaximumCadence'', ''AverageWatts'',
                                           ''MaximumWatts'', ''TotalPower'', ''AverageResistance'',
                                           ''MaximumResistance''}"
    if "c' \<in> set (children lx)" for c'
    using lap_tpx_names [OF lx(1) that]
    by (auto simp: rename_map_def to_remove_names_def split: if_splits)
  from lx(2) lap_tpx_result(1-4) [OF lx(1)] ren names show ?thesis
    by blast
qed

theorem lap_extension_block_renamed_witness:
  "process_lap lap_with_tpx = Inr lap_with_lx
   \<and> find_child (tcx ''Extensions'') lap_with_tpx
     = Some (node (tcx ''Extensions'')
          [node (ext ''TPX'')
             [leaf (ext ''TotalPower'') (Some ''512.0''),
              leaf (ext ''AverageCadence'') (Some ''78.0''),
              leaf (ext ''MaximumWatts'') (Some ''250.4'')]])
   \<and> find_child (ext ''TPX'') (node (tcx ''Extensions'')
          [node (ext ''TPX'')
             [leaf (ext ''TotalPower'') (Some ''512.0''),
              leaf (ext ''AverageCadence'') (Some ''78.0''),
              leaf (ext ''MaximumWatts'') (Some ''250.4'')]])
     = Some (node (ext ''TPX'')
             [leaf (ext ''TotalPower'') (Some ''512.0''),
              leaf (ext ''AverageCadence'') (Some ''78.0''),
              leaf (ext ''MaximumWatts'') (Some ''250.4'')])
   \<and> (\<exists>lx. find_child (tcx ''Extensions'') lap_with_lx = Some (node (tcx ''Extensions'') [lx])
           \<and> tag lx = ext ''LX''
           \<and> (\<exists>c' \<in> set (children lx). tag c' = ext ''AvgCadence'' \<and> text_el c' = Some ''78''))"
proof -
  let ?ac = "leaf (ext ''AverageCadence'') (Some ''78.0'')"
  let ?tpx = "node (ext ''TPX'')
             [leaf (ext ''TotalPower'') (Some ''512.0''), ?ac,
              leaf (ext ''MaximumWatts'') (Some ''250.4'')]"
  let ?ex = "node (tcx ''Extensions'') [?tpx]"
  have h1: "process_lap lap_with_tpx = Inr lap_with_lx"
    by code_simp
  have h2: "find_child (tcx ''Extensions'') lap_with_tpx = Some ?ex"
    by code_simp
  have h3: "find_child (ext ''TPX'') ?ex = Some ?tpx"
    by code_simp
  from lap_extension_block_renamed [OF h1 h2 h3] obtain lx where
    lx: "find_child (tcx ''Extensions'') lap_with_lx
         = Some (set_children
             (update_first (\<lambda>c. tag c = ext ''TPX'') (\<lambda>_. lx) (children ?ex)) ?ex)"
      "tag lx = ext ''LX''"
      "\<forall>c \<in> set (children ?tpx). \<forall>old new.
                (old, new) \<in> {(''AverageCadence'', ''AvgCadence''), (''MaximumCadence'', ''MaxCadence''),
                               (''AverageWatts'', ''AvgWatts''), (''MaximumWatts'', ''MaxWatts'')}
                \<and> local_name (tag c) = old
                \<longrightarrow> (\<exists>c' \<in> set (children lx).
                       tag c' = ext new \<and> attrib c' = attrib c \<and> children c' = children c
                       \<and> tail c' = tail c
                       \<and> (text_el c = Some ''78.0'' \<longrightarrow> text_el c' = Some ''78''))"
    by blast
  have a: "?ac \<in> set (children ?tpx)"
    by (simp add: node_def)
  have b: "local_name (tag ?ac) = ''AverageCadence''"
    by (simp add: leaf_def local_name_qname)
  have c: "text_el ?ac = Some ''78.0''"
    by (simp add: leaf_def)
  from lx(3) a b c have "\<exists>c' \<in> set (children lx). tag c' = ext ''AvgCadence'' \<and> text_el c' = Some ''78''"
    by blast
  moreover have "set_children (update_first (\<lambda>c. tag c = ext ''TPX'') (\<lambda>_. lx) (children ?ex)) ?ex
                 = node (tcx ''Extensions'') [lx]"
    by (simp add: node_def)
  ultimately show ?thesis
    using h1 h2 h3 lx(1,2) by auto
qed

subsection \<open>C8: Resistance and Watts in the extension block of a Trackpoint\<close>

text \<open>
  C8, as stated, fails.  \<open>tpx.find("ae:Resistance")\<close> returns one element and
  \<open>tpx.remove\<close> removes that one.  In the tree below the extension block of the
  Trackpoint holds two Resistance children; the transformed tree still holds the second.
\<close>

theorem second_resistance_counterexample:
  "transform tree_two_resistance = Inr tree_two_resistance_out
   \<and> length (filter (\<lambda>e. tag e = ext ''Resistance'') (iter tree_two_resistance_out)) = 1"
proof (rule conjI)
  show "transform tree_two_resistance = Inr tree_two_resistance_out"
    by (rule transform_tree_two_resistance)
  show "length (filter (\<lambda>e. tag e = ext ''Resistance'') (iter tree_two_resistance_out)) = 1"
    by code_simp
qed

text \<open>
  C8, amended.  Let the loop body run on a Trackpoint without raising, and let
  \<open>tp.find("Extensions")\<close> return an element in which \<open>find("ae:TPX")\<close> returns the block
  \<open>tpx\<close>.  Afterwards the block at its place is still tagged \<open>TPX\<close> and has one Resistance
  child fewer than \<open>tpx\<close> (the first is removed): none when \<open>tpx\<close> had one.  If
  \<open>tpx.find("ae:Watts")\<close> returns a child with the text \<open>145.3\<close>, that child has the text
  \<open>145\<close> afterwards and is otherwise the same.
\<close>

theorem trackpoint_first_resistance_removed:
  assumes "process_trackpoint tp = Inr tp'"
    and "find_child (tcx ''Extensions'') tp = Some extensions"
    and "find_child (ext ''TPX'') extensions = Some tpx"
  shows "\<exists>tpx'. find_child (tcx ''Extensions'') tp'
                 = Some (set_children
                     (update_first (\<lambda>c. tag c = ext ''TPX'') (\<lambda>_. tpx') (children extensions))
                     extensions)
          \<and> tag tpx' = ext ''TPX''
          \<and> length (filter (\<lambda>c. tag c = ext ''Resistance'') (children tpx'))
            = length (filter (\<lambda>c. tag c = ext ''Resistance'') (children tpx)) - 1
          \<and> (\<forall>w. find_child (ext ''Watts'') tpx = Some w \<and> text_el w = Some ''145.3''
                \<longrightarrow> find_child (ext ''Watts'') tpx' = Some (set_text (Some ''145'') w))"
proof -
  from assms(1) obtain t2 where t2: "tp_extensions t2 = Inr tp'"
    "find_child (tcx ''Extensions'') t2 = find_child (tcx ''Extensions'') tp"
    by (rule process_trackpoint_extensions_kept)
  from tp_extensions_result [OF t2(1) _ assms(3)] t2(2) assms(2) obtain tpx' where
    x: "tp_tpx tpx = Inr tpx'"
    "find_child (tcx ''Extensions'') tp'
       = Some (set_children
           (update_first (\<lambda>c. tag c = ext ''TPX'') (\<lambda>_. tpx') (children extensions)) extensions)"
    by auto
  have "tag tpx' = ext ''TPX''"
    using tp_tpx_result(1) [OF x(1)] assms(3) by (auto simp: find_child_def find_Some_iff)
  moreover have "find_child (ext ''Watts'') tpx' = Some (set_text (Some ''145'') w)"
    if "find_child (ext ''Watts'') tpx = Some w" "text_el w = Some ''145.3''" for w
    using tp_tpx_result(3) [OF x(1) that(1)] that(2) by (auto simp: rounded_145_3)
  ultimately show ?thesis
    using x(2) tp_tpx_result(2) [OF x(1)] by blast
qed

theorem trackpoint_first_resistance_removed_witness:
  "process_trackpoint (tp_block [leaf (ext ''Resistance'') (Some ''35''), leaf (ext ''Watts'') (Some ''145.3'')])
     = Inr (tp_block [leaf (ext ''Watts'') (Some ''145'')])
   \<and> find_child (tcx ''Extensions'')
       (tp_block [leaf (ext ''Resistance'') (Some ''35''), leaf (ext ''Watts'') (Some ''145.3'')])
     = Some (node (tcx ''Extensions'')
         [node (ext ''TPX'') [leaf (ext ''Resistance'') (Some ''35''), leaf (ext ''Watts'') (Some ''145.3'')]])
   \<and> find_child (ext ''TPX'') (node (tcx ''Extensions'')
         [node (ext ''TPX'') [leaf (ext ''Resistance'') (Some ''35''), leaf (ext ''Watts'') (Some ''145.3'')]])
     = Some (node (ext ''TPX'') [leaf (ext ''Resistance'') (Some ''35''), leaf (ext ''Watts'') (Some ''145.3'')])
   \<and> (\<exists>tpx'. find_child (tcx ''Extensions'') (tp_block [leaf (ext ''Watts'') (Some ''145'')])
               = Some (node (tcx ''Extensions'') [tpx'])
          \<and> length (filter (\<lambda>c. tag c = ext ''Resistance'') (children tpx')) = 0
          \<and> find_child (ext ''Watts'') tpx' = Some (leaf (ext ''Watts'') (Some ''145'')))"
proof -
  let ?w = "leaf (ext ''Watts'') (Some ''145.3'')"
  let ?tpx = "node (ext ''TPX'') [leaf (ext ''Resistance'') (Some ''35''), ?w]"
  let ?ex = "node (tcx ''Extensions'') [?tpx]"
  let ?tp = "tp_block [leaf (ext ''Resistance'') (Some ''35''), ?w]"
  let ?tp' = "tp_block [leaf (ext ''Watts'') (Some ''145'')]"
  have h1: "process_trackpoint ?tp = Inr ?tp'"
    by code_simp
  have h2: "find_child (tcx ''Extensions'') ?tp = Some ?ex"
    by code_simp
  have h3: "find_child (ext ''TPX'') ?ex = Some ?tpx"
    by code_simp
  from trackpoint_first_resistance_removed [OF h1 h2 h3] obtain tpx' where
    x: "find_child (tcx ''Extensions'') ?tp'
        = Some (set_children
            (update_first (\<lambda>c. tag c = ext ''TPX'') (\<lambda>_. tpx') (children ?ex)) ?ex)"
      "length (filter (\<lambda>c. tag c = ext ''Resistance'') (children tpx'))
       = length (filter (\<lambda>c. tag c = ext ''Resistance'') (children ?tpx)) - 1"
      "\<forall>w. find_child (ext ''Watts'') ?tpx = Some w \<and> text_el w = Some ''145.3''
           \<longrightarrow> find_child (ext ''Watts'') tpx' = Some (set_text (Some ''145'') w)"
    by blast
  have a: "find_child (ext ''Watts'') ?tpx = Some ?w" "text_el ?w = Some ''145.3''"
    by (simp_all add: find_child_def node_def leaf_def)
  have "find_child (ext ''Watts'') tpx' = Some (set_text (Some ''145'') ?w)"
    using x(3) a by blast
  then have "find_child (ext ''Watts'') tpx' = Some (leaf (ext ''Watts'') (Some ''145''))"
    by (simp add: leaf_def)
  moreover have "length (filter (\<lambda>c. tag c = ext ''Resistance'') (children tpx')) = 0"
    using x(2) by (simp add: node_def leaf_def)
  moreover have "set_children (update_first (\<lambda>c. tag c = ext ''TPX'') (\<lambda>_. tpx') (children ?ex)) ?ex
                 = node (tcx ''Extensions'') [tpx']"
    by (simp add: node_def)
  ultimately show ?thesis
    using h1 h2 h3 x(1) by auto
qed

end
